theory Spec2Isabelle
  imports Complex_Main
begin

section \<open>Commerce transaction core: stock ledger, cart pricing, checkout, order lifecycle\<close>

text \<open>
  The development embeds the stock methods of \<open>src/models/Product.js\<close>, the cart
  methods of \<open>src/models/Cart.js\<close>, \<open>createOrder\<close> of
  \<open>src/controllers/order.controller.js\<close> and the eligibility methods of
  \<open>src/models/Order.js\<close>.

  Conventions of the embedding:
  \<^item> a JavaScript number that holds money or a quantity is an exact rational
    (\<open>rat\<close>); rounding of binary floating point is outside the model. Where an
    expression can be \<open>undefined\<close> or \<open>NaN\<close> its value is a \<open>rat option\<close>, and
    \<open>None\<close> is either of the two: arithmetic on them gives \<open>NaN\<close>. Instants are
    integer milliseconds (\<open>Date.now()\<close>, \<open>getTime()\<close>).
  \<^item> a document of the persistence library is a record. The behaviour of the library
    that the methods rest on is written into the model:
    a nested path of a schema (\<open>coupon\<close> of a cart) reads as an object, which is
    truthy, also when nothing is stored under it;
    a path of type Number refuses a value that is not a number and keeps the value it
    had, while \<open>undefined\<close> unsets it;
    \<open>populate\<close> replaces, in the document in memory, each reference by the referenced
    document cut down to the selected fields, or by \<open>null\<close> when there is none, and
    the stored document keeps the id;
    \<open>save\<close> validates the document against the schema before it runs the pre-save
    hooks;
    a loaded document gets the schema's defaults for the paths that are not stored.
  \<^item> an object literal used as a lookup table answers for its own keys and for the
    members every object inherits.
\<close>

subsection \<open>Products and the stock ledger\<close>

type_synonym objectId = string

record inventory =
  trackQuantity :: bool
  quantity :: rat
  lowStockThreshold :: rat
  allowBackorders :: bool

record product =
  name :: string
  price :: rat
  images :: "string list"
  inventory :: inventory

text \<open>\<open>this.emit("lowStock", this)\<close>: the event carries the product as it is when emitted.\<close>

datatype event = LowStock product

text \<open>
  \<open>updateStock(quantity, operation)\<close> mutates \<open>this.inventory.quantity\<close> and may emit
  one event: the model returns the product after the call and the events emitted.
  An operation that is neither \<open>decrease\<close> nor \<open>increase\<close> changes no quantity, and the
  low-stock check still runs.
\<close>

definition updateStock :: "rat \<Rightarrow> string \<Rightarrow> product \<Rightarrow> product \<times> event list" where
  "updateStock qty operation p =
     (if \<not> trackQuantity (inventory p) then (p, [])
      else
        let p' =
          (if operation = ''decrease'' then
             p\<lparr>inventory := (inventory p)\<lparr>quantity := max 0 (quantity (inventory p) - qty)\<rparr>\<rparr>
           else if operation = ''increase'' then
             p\<lparr>inventory := (inventory p)\<lparr>quantity := quantity (inventory p) + qty\<rparr>\<rparr>
           else p)
        in (p', if quantity (inventory p') \<le> lowStockThreshold (inventory p')
                then [LowStock p'] else []))"

subsection \<open>Populated products\<close>

text \<open>
  A product as \<open>populate\<close> puts it into a cart line: the fields named by the
  \<open>select\<close> of the call, every other field \<open>undefined\<close>. \<open>inventory\<close> is a nested
  path, so the three inventory fields are read one by one.
\<close>

record productDoc =
  docId :: objectId
  docName :: "string option"
  docPrice :: "rat option"
  docImages :: "string list option"
  docTrackQuantity :: "bool option"
  docQuantity :: "rat option"
  docAllowBackorders :: "bool option"

definition selected :: "string list \<Rightarrow> string \<Rightarrow> 'a \<Rightarrow> 'a option" where
  "selected sel path x = (if path \<in> set sel then Some x else None)"

definition project :: "string list \<Rightarrow> objectId \<Rightarrow> product \<Rightarrow> productDoc" where
  "project sel i p =
     \<lparr>docId = i,
      docName = selected sel ''name'' (name p),
      docPrice = selected sel ''price'' (price p),
      docImages = selected sel ''images'' (images p),
      docTrackQuantity = selected sel ''inventory.trackQuantity'' (trackQuantity (inventory p)),
      docQuantity = selected sel ''inventory.quantity'' (quantity (inventory p)),
      docAllowBackorders =
        selected sel ''inventory.allowBackorders'' (allowBackorders (inventory p))\<rparr>"

text \<open>The three \<open>select\<close> strings: of \<open>calculateTotals\<close>, of \<open>validateStock\<close>, of \<open>createOrder\<close>.\<close>

definition pricingSelect :: "string list" where
  "pricingSelect =
     [''price'', ''compareAtPrice'', ''inventory.trackQuantity'', ''inventory.quantity'',
      ''inventory.allowBackorders'']"

definition stockSelect :: "string list" where
  "stockSelect =
     [''inventory.trackQuantity'', ''inventory.quantity'', ''inventory.allowBackorders'',
      ''name'']"

definition checkoutSelect :: "string list" where
  "checkoutSelect =
     [''name'', ''price'', ''images'', ''inventory.trackQuantity'', ''inventory.quantity'',
      ''inventory.allowBackorders'']"

text \<open>A boolean that may be \<open>undefined\<close>, as a condition.\<close>

fun truthy :: "bool option \<Rightarrow> bool" where
  "truthy None = False"
| "truthy (Some b) = b"

text \<open>
  The message of a stock check; the last one is \<open>Only ${quantity} items available\<close>.
\<close>

datatype stockMessage =
    StockTrackingDisabled
  | BackordersAllowed
  | InStock
  | OnlyItemsAvailable "rat option"

record stockCheck =
  available :: bool
  message :: stockMessage
  availableQuantity :: "rat option"

text \<open>
  \<open>checkStock\<close>, called by \<open>validateStock\<close> on the populated product. A comparison
  with \<open>undefined\<close> is false.
\<close>

definition checkStock :: "rat \<Rightarrow> productDoc \<Rightarrow> stockCheck" where
  "checkStock qty d =
     (if \<not> truthy (docTrackQuantity d) then
        \<lparr>available = True, message = StockTrackingDisabled, availableQuantity = None\<rparr>
      else if truthy (docAllowBackorders d) then
        \<lparr>available = True, message = BackordersAllowed, availableQuantity = None\<rparr>
      else if (case docQuantity d of None \<Rightarrow> False | Some n \<Rightarrow> n \<ge> qty) then
        \<lparr>available = True, message = InStock, availableQuantity = None\<rparr>
      else
        \<lparr>available = False, message = OnlyItemsAvailable (docQuantity d),
         availableQuantity = docQuantity d\<rparr>)"

subsection \<open>Carts\<close>

text \<open>
  The line and cart documents of \<open>src/models/Cart.js\<close>. Fields that no cart method
  reads (\<open>sessionId\<close>, \<open>expiresAt\<close>, \<open>ipAddress\<close>, \<open>userAgent\<close>) are left out.
  \<open>modifiedPaths\<close> is the change tracking that \<open>isModified\<close> reads: assigning to a
  path of the document records the path, and saving forgets the record.
  The coupon's fields \<open>discount\<close> and \<open>type\<close> are \<open>couponDiscount\<close> and
  \<open>couponType\<close> here, the line's fields carry the prefix \<open>item\<close>.

  \<open>coupon = None\<close> is the cart with nothing stored under \<open>coupon\<close>; \<open>this.coupon\<close>
  is truthy all the same and its fields read \<open>undefined\<close>. \<open>discount = None\<close> is the
  discount unset.
\<close>

record variant =
  variantName :: "string option"
  variantValue :: "string option"
  priceAdjustment :: "rat option"

text \<open>
  \<open>item.product\<close>: the id, or after \<open>populate\<close> the selected fields of the product
  with that id (\<open>None\<close> is \<open>null\<close>: there is no such product).
\<close>

datatype productRef =
    Unpopulated objectId
  | Populated objectId "productDoc option"

fun refId :: "productRef \<Rightarrow> objectId" where
  "refId (Unpopulated i) = i"
| "refId (Populated i _) = i"

record cartItem =
  itemProduct :: productRef
  itemQuantity :: rat
  itemVariant :: "variant option"
  addedAt :: int
  lastModified :: int

record coupon =
  code :: string
  couponDiscount :: rat
  couponType :: string

record cart =
  user :: objectId
  items :: "cartItem list"
  subtotal :: rat
  tax :: rat
  shipping :: rat
  discount :: "rat option"
  total :: rat
  coupon :: "coupon option"
  shippingMethod :: string
  lastActivity :: int
  modifiedPaths :: "string set"

type_synonym catalog = "objectId \<rightharpoonup> product"

datatype jsError = TypeError | ValidationError

text \<open>
  \<open>a || d\<close> on a number that may be absent: \<open>d\<close> when \<open>a\<close> is absent or zero.
\<close>

fun orNumber :: "rat option \<Rightarrow> rat \<Rightarrow> rat" where
  "orNumber None d = d"
| "orNumber (Some a) d = (if a = 0 then d else a)"

text \<open>
  Assignment to a path of type Number of a value that is a number or \<open>NaN\<close>: \<open>NaN\<close>
  is refused and the path keeps its value.
\<close>

fun assignNumber :: "rat option \<Rightarrow> rat \<Rightarrow> rat" where
  "assignNumber None old = old"
| "assignNumber (Some v) old = v"

text \<open>
  The table \<open>shippingRates\<close>, the same object literal in the cart and in checkout, and
  what \<open>shippingRates[key]\<close> finds: a rate of the table, a member inherited from
  \<open>Object.prototype\<close> (a function or an object, truthy and not a number), or nothing.
\<close>

definition shippingRates :: "string \<rightharpoonup> rat" where
  "shippingRates =
     [''standard'' \<mapsto> 5.99, ''express'' \<mapsto> 12.99, ''overnight'' \<mapsto> 24.99]"

definition objectPrototypeKeys :: "string list" where
  "objectPrototypeKeys =
     [''constructor'', ''__defineGetter__'', ''__defineSetter__'', ''hasOwnProperty'',
      ''__lookupGetter__'', ''__lookupSetter__'', ''isPrototypeOf'',
      ''propertyIsEnumerable'', ''toString'', ''valueOf'', ''__proto__'',
      ''toLocaleString'']"

datatype member = Own rat | Inherited | Missing

definition lookupRate :: "string \<Rightarrow> member" where
  "lookupRate key =
     (case shippingRates key of
        Some r \<Rightarrow> Own r
      | None \<Rightarrow> if key \<in> set objectPrototypeKeys then Inherited else Missing)"

text \<open>
  The coupon block of \<open>calculateTotals\<close> (lines 136 to 143). \<open>this.coupon\<close> is truthy
  with or without a coupon; without one its \<open>type\<close> is not \<open>percentage\<close> and the
  discount is its \<open>discount\<close>, which is \<open>undefined\<close>. A coupon whose type is not
  \<open>percentage\<close> is taken as fixed.
\<close>

definition computeDiscount :: "rat \<Rightarrow> coupon option \<Rightarrow> rat option" where
  "computeDiscount sub cp =
     (case cp of
        None \<Rightarrow> None
      | Some k \<Rightarrow>
          if couponType k = ''percentage'' then Some ((sub * couponDiscount k) / 100)
          else Some (couponDiscount k))"

text \<open>\<open>item.variant?.priceAdjustment || 0\<close>\<close>

definition variantAdjustment :: "variant option \<Rightarrow> rat" where
  "variantAdjustment v =
     orNumber (case v of None \<Rightarrow> None | Some w \<Rightarrow> priceAdjustment w) 0"

text \<open>\<open>populate\<close> of \<open>items.product\<close> with a \<open>select\<close>, on the document in memory.\<close>

definition populateLine :: "string list \<Rightarrow> catalog \<Rightarrow> cartItem \<Rightarrow> cartItem" where
  "populateLine sel cat item =
     item\<lparr>itemProduct :=
       Populated (refId (itemProduct item))
         (map_option (project sel (refId (itemProduct item)))
            (cat (refId (itemProduct item))))\<rparr>"

definition populate :: "string list \<Rightarrow> catalog \<Rightarrow> cart \<Rightarrow> cart" where
  "populate sel cat c = c\<lparr>items := map (populateLine sel cat) (items c)\<rparr>"

text \<open>
  The body of the \<open>forEach\<close> of \<open>calculateTotals\<close>: one populated line added to the
  running subtotal; a line whose product is \<open>null\<close> adds nothing. The subtotal is a
  number as long as the prices are selected, which \<open>calculateTotals\<close> does.
\<close>

definition addLine :: "rat option \<Rightarrow> cartItem \<Rightarrow> rat option" where
  "addLine sub item =
     (case itemProduct item of
        Populated _ (Some d) \<Rightarrow>
          (case (sub, docPrice d) of
             (Some s, Some p) \<Rightarrow>
               Some (s + (p + variantAdjustment (itemVariant item)) * itemQuantity item)
           | _ \<Rightarrow> None)
      | Populated _ None \<Rightarrow> sub
      | Unpopulated _ \<Rightarrow> None)"

text \<open>
  \<open>calculateTotals\<close>, assignment by assignment. The tax and the total are \<open>NaN\<close>
  when the discount is \<open>undefined\<close>, and an inherited member is no number: those
  assignments are refused.
\<close>

definition calculateTotals :: "catalog \<Rightarrow> cart \<Rightarrow> cart" where
  "calculateTotals cat c =
     (let c0 = populate pricingSelect cat c;
          sub = foldl addLine (Some 0) (items c0);
          c1 = c0\<lparr>subtotal := assignNumber sub (subtotal c0)\<rparr>;
          disc = (case sub of
                    Some s \<Rightarrow> computeDiscount s (coupon c1)
                  | None \<Rightarrow> (case coupon c1 of
                               None \<Rightarrow> None
                             | Some k \<Rightarrow> if couponType k = ''percentage'' then None
                                         else Some (couponDiscount k)));
          c2 = c1\<lparr>discount := disc\<rparr>;
          c3 = c2\<lparr>shipping :=
                 (case lookupRate (shippingMethod c2) of
                    Own r \<Rightarrow> orNumber (Some r) 0
                  | Inherited \<Rightarrow> shipping c2
                  | Missing \<Rightarrow> 0)\<rparr>;
          c4 = c3\<lparr>tax := assignNumber
                 (case (sub, disc) of (Some s, Some d) \<Rightarrow> Some ((s - d) * 0.08) | _ \<Rightarrow> None)
                 (tax c3)\<rparr>;
          c5 = c4\<lparr>total := assignNumber
                 (case discount c4 of
                    Some d \<Rightarrow> Some (subtotal c4 - d + tax c4 + shipping c4)
                  | None \<Rightarrow> None)
                 (total c4)\<rparr>
      in c5\<lparr>modifiedPaths := modifiedPaths c
              \<union> {''subtotal'', ''discount'', ''shipping'', ''tax'', ''total''}\<rparr>)"

definition isModified :: "string \<Rightarrow> cart \<Rightarrow> bool" where
  "isModified path c = (path \<in> modifiedPaths c)"

text \<open>
  The validators of the cart schema: a line's quantity is at least 1, the coupon's type
  and the shipping method are of their enums (an absent coupon type passes).
\<close>

definition validCart :: "cart \<Rightarrow> bool" where
  "validCart c =
     (list_all (\<lambda>item. 1 \<le> itemQuantity item) (items c)
      \<and> (case coupon c of
            None \<Rightarrow> True
          | Some k \<Rightarrow> couponType k \<in> set [''percentage'', ''fixed''])
      \<and> shippingMethod c \<in> set [''standard'', ''express'', ''overnight''])"

text \<open>
  \<open>save()\<close>: the validation, then the pre-save hook, then the document is stored and
  its change tracking starts again. \<open>now\<close> is the clock, \<open>cat\<close> the product
  collection that \<open>populate\<close> reads.
\<close>

definition preSave :: "int \<Rightarrow> catalog \<Rightarrow> cart \<Rightarrow> cart" where
  "preSave now cat c =
     (let c1 = (if isModified ''items'' c \<or> isModified ''coupon'' c
                   \<or> isModified ''shippingMethod'' c
                then calculateTotals cat c else c)
      in c1\<lparr>lastActivity := now,
             modifiedPaths := insert ''lastActivity'' (modifiedPaths c1)\<rparr>)"

definition save :: "int \<Rightarrow> catalog \<Rightarrow> cart \<Rightarrow> jsError + cart" where
  "save now cat c =
     (if \<not> validCart c then Inl ValidationError
      else Inr ((preSave now cat c)\<lparr>modifiedPaths := {}\<rparr>))"

text \<open>
  What a later \<open>findOne\<close> loads of a saved cart: the lines refer to their products by
  id again, and the unset discount has the schema's default.
\<close>

definition stored :: "cart \<Rightarrow> cart" where
  "stored c =
     c\<lparr>items := map (\<lambda>item. item\<lparr>itemProduct := Unpopulated (refId (itemProduct item))\<rparr>)
                   (items c),
       discount := Some (case discount c of None \<Rightarrow> 0 | Some d \<Rightarrow> d),
       modifiedPaths := {}\<rparr>"

subsection \<open>The line methods\<close>

text \<open>
  The two texts that the identity test compares on the product side:
  \<open>productId.toString()\<close> is the text of an id, and \<open>item.product.toString()\<close> is
  the text of an id for a reference and the printed document for a populated product.
  A printed document is not the text of an id.
\<close>

datatype printed = IdText objectId | DocumentText productDoc

text \<open>
  The identity test of the three line methods. \<open>item.product.toString()\<close> throws on
  \<open>null\<close>. The variants are compared by their JSON text, taken here as equality of
  the stored variant and the variant passed in (with its keys in the schema's order).
\<close>

definition matchesLine :: "objectId \<Rightarrow> variant option \<Rightarrow> cartItem \<Rightarrow> jsError + bool" where
  "matchesLine productId v item =
     (case itemProduct item of
        Populated _ None \<Rightarrow> Inl TypeError
      | Populated _ (Some d) \<Rightarrow>
          Inr (DocumentText d = IdText productId \<and> itemVariant item = v)
      | Unpopulated i \<Rightarrow> Inr (IdText i = IdText productId \<and> itemVariant item = v))"

text \<open>
  \<open>find\<close> returns a reference to the first matching line; the model returns its index,
  so that the assignment through the reference is an update of the list at that index.
\<close>

fun findLine :: "objectId \<Rightarrow> variant option \<Rightarrow> cartItem list \<Rightarrow> jsError + nat option" where
  "findLine productId v [] = Inr None"
| "findLine productId v (item # rest) =
     (case matchesLine productId v item of
        Inl e \<Rightarrow> Inl e
      | Inr True \<Rightarrow> Inr (Some 0)
      | Inr False \<Rightarrow>
          (case findLine productId v rest of
             Inl e \<Rightarrow> Inl e
           | Inr r \<Rightarrow> Inr (map_option Suc r)))"

text \<open>The \<open>filter\<close> of \<open>removeItem\<close>: the lines that do not match.\<close>

fun rejectLines :: "objectId \<Rightarrow> variant option \<Rightarrow> cartItem list \<Rightarrow> jsError + cartItem list" where
  "rejectLines productId v [] = Inr []"
| "rejectLines productId v (item # rest) =
     (case matchesLine productId v item of
        Inl e \<Rightarrow> Inl e
      | Inr b \<Rightarrow>
          (case rejectLines productId v rest of
             Inl e \<Rightarrow> Inl e
           | Inr r \<Rightarrow> Inr (if b then r else item # r)))"

text \<open>
  A variant as the line schema stores it: an object gets the default
  \<open>priceAdjustment\<close> of 0 where it has none, \<open>null\<close> stays \<open>null\<close>.
\<close>

definition castVariant :: "variant option \<Rightarrow> variant option" where
  "castVariant v =
     (case v of
        None \<Rightarrow> None
      | Some w \<Rightarrow>
          Some (w\<lparr>priceAdjustment :=
                  Some (case priceAdjustment w of None \<Rightarrow> 0 | Some a \<Rightarrow> a)\<rparr>))"

definition setItems :: "cartItem list \<Rightarrow> cart \<Rightarrow> cart" where
  "setItems xs c = c\<lparr>items := xs, modifiedPaths := insert ''items'' (modifiedPaths c)\<rparr>"

text \<open>
  A pushed line takes \<open>lastModified\<close> from the schema's default, the clock; the default
  arguments (\<open>quantity = 1\<close>, \<open>variant = null\<close>) are filled in by the caller.
\<close>

definition addItem ::
  "int \<Rightarrow> catalog \<Rightarrow> objectId \<Rightarrow> rat \<Rightarrow> variant option \<Rightarrow> cart \<Rightarrow> jsError + cart" where
  "addItem now cat productId qty v c =
     (case findLine productId v (items c) of
        Inl e \<Rightarrow> Inl e
      | Inr (Some i) \<Rightarrow>
          save now cat
            (setItems ((items c)[i := (items c ! i)
               \<lparr>itemQuantity := itemQuantity (items c ! i) + qty, lastModified := now\<rparr>]) c)
      | Inr None \<Rightarrow>
          save now cat
            (setItems (items c @
              [\<lparr>itemProduct = Unpopulated productId, itemQuantity = qty,
                itemVariant = castVariant v, addedAt = now, lastModified = now\<rparr>]) c))"

definition removeItem ::
  "int \<Rightarrow> catalog \<Rightarrow> objectId \<Rightarrow> variant option \<Rightarrow> cart \<Rightarrow> jsError + cart" where
  "removeItem now cat productId v c =
     (case rejectLines productId v (items c) of
        Inl e \<Rightarrow> Inl e
      | Inr xs \<Rightarrow> save now cat (setItems xs c))"

definition updateQuantity ::
  "int \<Rightarrow> catalog \<Rightarrow> objectId \<Rightarrow> rat \<Rightarrow> variant option \<Rightarrow> cart \<Rightarrow> jsError + cart" where
  "updateQuantity now cat productId qty v c =
     (case findLine productId v (items c) of
        Inl e \<Rightarrow> Inl e
      | Inr (Some i) \<Rightarrow>
          if qty \<le> 0 then removeItem now cat productId v c
          else save now cat
                 (setItems ((items c)[i := (items c ! i)
                    \<lparr>itemQuantity := qty, lastModified := now\<rparr>]) c)
      | Inr None \<Rightarrow> Inr c)"

definition clear :: "int \<Rightarrow> catalog \<Rightarrow> cart \<Rightarrow> jsError + cart" where
  "clear now cat c =
     save now cat
       (c\<lparr>items := [], coupon := None, subtotal := 0, tax := 0, shipping := 0,
          discount := Some 0, total := 0,
          modifiedPaths := modifiedPaths c
            \<union> {''items'', ''coupon'', ''subtotal'', ''tax'', ''shipping'', ''discount'',
                ''total''}\<rparr>)"

definition applyCoupon ::
  "int \<Rightarrow> catalog \<Rightarrow> string \<Rightarrow> rat \<Rightarrow> string \<Rightarrow> cart \<Rightarrow> jsError + cart" where
  "applyCoupon now cat couponCode disc ty c =
     save now cat
       (c\<lparr>coupon := Some \<lparr>code = couponCode, couponDiscount = disc, couponType = ty\<rparr>,
          modifiedPaths := insert ''coupon'' (modifiedPaths c)\<rparr>)"

definition removeCoupon :: "int \<Rightarrow> catalog \<Rightarrow> cart \<Rightarrow> jsError + cart" where
  "removeCoupon now cat c =
     save now cat (c\<lparr>coupon := None, modifiedPaths := insert ''coupon'' (modifiedPaths c)\<rparr>)"

text \<open>
  The shipping-method change is the body of the controller \<open>updateShippingMethod\<close>:
  \<open>cart.shippingMethod = method; await cart.save()\<close>.
\<close>

definition updateShippingMethod :: "int \<Rightarrow> catalog \<Rightarrow> string \<Rightarrow> cart \<Rightarrow> jsError + cart" where
  "updateShippingMethod now cat method c =
     save now cat
       (c\<lparr>shippingMethod := method,
          modifiedPaths := insert ''shippingMethod'' (modifiedPaths c)\<rparr>)"

text \<open>
  Reading a field of the cart that a method returns, and running a second method on the
  same document after a first.
\<close>

definition field :: "(cart \<Rightarrow> 'a) \<Rightarrow> jsError + cart \<Rightarrow> jsError + 'a" where
  "field f r = (case r of Inl e \<Rightarrow> Inl e | Inr c \<Rightarrow> Inr (f c))"

definition andThen :: "jsError + cart \<Rightarrow> (cart \<Rightarrow> jsError + cart) \<Rightarrow> jsError + cart" where
  "andThen r f = (case r of Inl e \<Rightarrow> Inl e | Inr c \<Rightarrow> f c)"

text \<open>
  The invariant of the cart's totals; with the discount \<open>undefined\<close> the right-hand
  side is \<open>NaN\<close>, which equals nothing.
\<close>

definition cartInvariant :: "cart \<Rightarrow> bool" where
  "cartInvariant c =
     (case discount c of
        None \<Rightarrow> False
      | Some d \<Rightarrow> total c = subtotal c - d + tax c + shipping c)"

subsection \<open>Stock validation of a cart\<close>

record stockIssue =
  issueProduct :: "string option"
  requested :: rat
  issueAvailable :: "rat option"
  issueMessage :: stockMessage

record stockValidation =
  isValid :: bool
  issues :: "stockIssue list"

text \<open>The body of the \<open>forEach\<close> of \<open>validateStock\<close>: the issues so far and one line.\<close>

definition checkLine :: "stockIssue list \<Rightarrow> cartItem \<Rightarrow> stockIssue list" where
  "checkLine stockIssues item =
     (case itemProduct item of
        Populated _ (Some d) \<Rightarrow>
          if truthy (docTrackQuantity d) then
            (let sc = checkStock (itemQuantity item) d
             in if \<not> available sc then
                  stockIssues @
                    [\<lparr>issueProduct = docName d, requested = itemQuantity item,
                      issueAvailable = availableQuantity sc, issueMessage = message sc\<rparr>]
                else stockIssues)
          else stockIssues
      | _ \<Rightarrow> stockIssues)"

text \<open>
  \<open>validateStock\<close> populates the lines of the cart in memory with its own \<open>select\<close>
  and reports the issues: the model returns the cart as the call leaves it, and the
  report.
\<close>

definition validateStock :: "catalog \<Rightarrow> cart \<Rightarrow> cart \<times> stockValidation" where
  "validateStock cat c =
     (let c1 = populate stockSelect cat c;
          stockIssues = foldl checkLine [] (items c1)
      in (c1, \<lparr>isValid = (length stockIssues = 0), issues = stockIssues\<rparr>))"

subsection \<open>Orders\<close>

text \<open>
  The order document of \<open>src/models/Order.js\<close>. The addresses, the payment
  descriptor, the notes and the gift fields are copied from the request and read by no
  method below; they are left out. The order number \<open>ORD-<instant>-<suffix>\<close> is the
  pair of the instant and the random suffix, and \<open>None\<close> before it is assigned. Fields
  that share a name with a cart field carry the prefix \<open>order\<close>.
\<close>

record orderItem =
  orderItemProduct :: objectId
  orderItemName :: "string option"
  orderItemImage :: string
  orderItemPrice :: "rat option"
  orderItemQuantity :: rat
  orderItemVariant :: "variant option"
  totalPrice :: "rat option"

record order =
  orderUser :: objectId
  orderNumber :: "(int \<times> nat) option"
  orderItems :: "orderItem list"
  orderSubtotal :: "rat option"
  orderTax :: "rat option"
  shippingCost :: "rat option"
  orderDiscount :: "rat option"
  orderTotal :: "rat option"
  status :: string
  orderShippingMethod :: string
  deliveredAt :: "int option"
  confirmedAt :: "int option"
  processingAt :: "int option"
  shippedAt :: "int option"
  cancelledAt :: "int option"
  returnedAt :: "int option"

definition updateStatus :: "int \<Rightarrow> string \<Rightarrow> order \<Rightarrow> order" where
  "updateStatus now newStatus ord =
     (let ord1 = ord\<lparr>status := newStatus\<rparr>
      in if newStatus = ''confirmed'' then ord1\<lparr>confirmedAt := Some now\<rparr>
         else if newStatus = ''processing'' then ord1\<lparr>processingAt := Some now\<rparr>
         else if newStatus = ''shipped'' then ord1\<lparr>shippedAt := Some now\<rparr>
         else if newStatus = ''delivered'' then ord1\<lparr>deliveredAt := Some now\<rparr>
         else if newStatus = ''cancelled'' then ord1\<lparr>cancelledAt := Some now\<rparr>
         else if newStatus = ''returned'' then ord1\<lparr>returnedAt := Some now\<rparr>
         else ord1)"

definition canBeCancelled :: "order \<Rightarrow> bool" where
  "canBeCancelled ord = (status ord \<in> set [''pending'', ''confirmed''])"

text \<open>
  \<open>canBeReturned\<close> at the instant \<open>now\<close>: \<open>Math.floor\<close> of the quotient of two
  integers is the integer division of \<open>int\<close>, which rounds down for either sign.
\<close>

definition canBeReturned :: "int \<Rightarrow> order \<Rightarrow> jsError + bool" where
  "canBeReturned now ord =
     (if status ord \<noteq> ''delivered'' then Inr False
      else case deliveredAt ord of
             None \<Rightarrow> Inl TypeError
           | Some d \<Rightarrow>
               (let daysSinceDelivery = (now - d) div (1000 * 60 * 60 * 24)
                in Inr (daysSinceDelivery \<le> 30)))"

subsection \<open>Checkout\<close>

text \<open>
  \<open>createOrder\<close> of \<open>src/controllers/order.controller.js\<close>. The store is what the
  three collections hold, with the events emitted so far; the request carries the
  optional \<open>shippingMethod\<close> of the body. The confirmation e-mail is sent after all
  writes and its failure is swallowed; it is not part of the model.
\<close>

record orderRequest =
  requestShippingMethod :: "string option"

record store =
  carts :: "objectId \<rightharpoonup> cart"
  products :: catalog
  orders :: "order list"
  emitted :: "event list"

text \<open>
  The responses: 400 \<open>Cart is empty\<close>, 400 \<open>Some items are out of stock\<close> with the
  issues, the error handler's answer to a thrown error, 201 with the order.
\<close>

datatype response =
    CartIsEmpty
  | OutOfStock "stockIssue list"
  | ServerError jsError
  | OrderCreated order

text \<open>The object handed to \<open>Order.create\<close>.\<close>

record orderData =
  dataUser :: objectId
  dataItems :: "orderItem list"
  dataShippingMethod :: string
  dataSubtotal :: "rat option"
  dataTax :: "rat option"
  dataShippingCost :: "rat option"
  dataDiscount :: "rat option"
  dataTotal :: "rat option"

text \<open>\<open>a || d\<close> on a string that may be absent: \<open>d\<close> when \<open>a\<close> is absent or empty.\<close>

fun orString :: "string option \<Rightarrow> string \<Rightarrow> string" where
  "orString None d = d"
| "orString (Some a) d = (if a = [] then d else a)"

text \<open>Arithmetic on numbers that may be \<open>undefined\<close> or \<open>NaN\<close>.\<close>

fun arith :: "(rat \<Rightarrow> rat \<Rightarrow> rat) \<Rightarrow> rat option \<Rightarrow> rat option \<Rightarrow> rat option" where
  "arith f (Some a) (Some b) = Some (f a b)"
| "arith f _ _ = None"

text \<open>
  One order line from one cart line (lines 47 to 57). \<open>item.product._id\<close> throws when
  the product is \<open>null\<close>, and \<open>item.product.images[0]\<close> throws when the populated
  product has no \<open>images\<close>, as the \<open>images\<close> of an id has none. \<open>images\<close> holds the
  urls, and \<open>images[0]?.url || ""\<close> is the first of them or the empty string.
\<close>

definition orderLine :: "cartItem \<Rightarrow> jsError + orderItem" where
  "orderLine item =
     (case itemProduct item of
        Unpopulated _ \<Rightarrow> Inl TypeError
      | Populated _ None \<Rightarrow> Inl TypeError
      | Populated i (Some d) \<Rightarrow>
          (case docImages d of
             None \<Rightarrow> Inl TypeError
           | Some urls \<Rightarrow>
               Inr \<lparr>orderItemProduct = i,
                    orderItemName = docName d,
                    orderItemImage = (case urls of [] \<Rightarrow> [] | u # _ \<Rightarrow> u),
                    orderItemPrice = docPrice d,
                    orderItemQuantity = itemQuantity item,
                    orderItemVariant = itemVariant item,
                    totalPrice =
                      arith (*) (arith (+) (docPrice d)
                                   (Some (variantAdjustment (itemVariant item))))
                        (Some (itemQuantity item))\<rparr>))"

fun orderLines :: "cartItem list \<Rightarrow> jsError + orderItem list" where
  "orderLines [] = Inr []"
| "orderLines (item # rest) =
     (case orderLine item of
        Inl e \<Rightarrow> Inl e
      | Inr l \<Rightarrow> (case orderLines rest of Inl e \<Rightarrow> Inl e | Inr ls \<Rightarrow> Inr (l # ls)))"

text \<open>
  Lines 59 to 87: the totals of the order. \<open>cart.coupon\<close> is truthy with or without
  a coupon, as in the cart. An inherited member as shipping cost is no number.
\<close>

definition orderTotals :: "orderRequest \<Rightarrow> objectId \<Rightarrow> cart \<Rightarrow> orderItem list \<Rightarrow> orderData" where
  "orderTotals body userId c ois =
     (let sub = foldl (\<lambda>t i. arith (+) t (totalPrice i)) (Some 0) ois;
          tx = arith (*) sub (Some 0.08);
          method = orString (requestShippingMethod body) (shippingMethod c);
          ship = (case lookupRate method of
                    Own r \<Rightarrow> Some (orNumber (Some r) 5.99)
                  | Inherited \<Rightarrow> None
                  | Missing \<Rightarrow> Some 5.99);
          disc = (case coupon c of
                    None \<Rightarrow> None
                  | Some k \<Rightarrow>
                      if couponType k = ''percentage''
                      then arith (/) (arith (*) sub (Some (couponDiscount k))) (Some 100)
                      else Some (couponDiscount k));
          tot = arith (-) (arith (+) (arith (+) sub tx) ship) disc
      in \<lparr>dataUser = userId, dataItems = ois, dataShippingMethod = method,
          dataSubtotal = sub, dataTax = tx, dataShippingCost = ship,
          dataDiscount = disc, dataTotal = tot\<rparr>)"

text \<open>
  \<open>Order.create\<close>. The new document has the schema's defaults and no order number;
  it is validated (the order number, the subtotal and the total are required, a line
  needs its name, price and total price and a quantity of at least 1, and no path of
  type Number takes \<open>NaN\<close>); after the validation the pre-save hook assigns the order
  number, from the clock \<open>now\<close> and the random suffix \<open>rnd\<close>.
\<close>

definition newOrder :: "orderData \<Rightarrow> order" where
  "newOrder d =
     \<lparr>orderUser = dataUser d, orderNumber = None, orderItems = dataItems d,
      orderSubtotal = dataSubtotal d, orderTax = dataTax d,
      shippingCost = dataShippingCost d, orderDiscount = dataDiscount d,
      orderTotal = dataTotal d, status = ''pending'',
      orderShippingMethod = dataShippingMethod d, deliveredAt = None,
      confirmedAt = None, processingAt = None, shippedAt = None, cancelledAt = None,
      returnedAt = None\<rparr>"

definition validOrder :: "order \<Rightarrow> bool" where
  "validOrder ord =
     (orderNumber ord \<noteq> None \<and> orderSubtotal ord \<noteq> None \<and> orderTax ord \<noteq> None
      \<and> shippingCost ord \<noteq> None \<and> orderTotal ord \<noteq> None
      \<and> list_all (\<lambda>i. orderItemName i \<noteq> None \<and> orderItemPrice i \<noteq> None
                        \<and> 1 \<le> orderItemQuantity i \<and> totalPrice i \<noteq> None)
           (orderItems ord))"

definition orderCreate :: "int \<Rightarrow> nat \<Rightarrow> orderData \<Rightarrow> jsError + order" where
  "orderCreate now rnd d =
     (let doc = newOrder d
      in if \<not> validOrder doc then Inl ValidationError
         else Inr (doc\<lparr>orderNumber := Some (now, rnd)\<rparr>))"

text \<open>
  The inventory loop (lines 114 to 120): the product of each line is read again by its
  id, decreased and saved. \<open>item.product._id\<close> throws on \<open>null\<close>; what the earlier
  turns have saved stays saved.
\<close>

definition decrementLine :: "store \<Rightarrow> cartItem \<Rightarrow> store" where
  "decrementLine st item =
     (case products st (refId (itemProduct item)) of
        None \<Rightarrow> st
      | Some p \<Rightarrow>
          if trackQuantity (inventory p) then
            (let r = updateStock (itemQuantity item) ''decrease'' p
             in st\<lparr>products := (products st)(refId (itemProduct item) \<mapsto> fst r),
                   emitted := emitted st @ snd r\<rparr>)
          else st)"

fun decrementLines :: "store \<Rightarrow> cartItem list \<Rightarrow> jsError option \<times> store" where
  "decrementLines st [] = (None, st)"
| "decrementLines st (item # rest) =
     (case itemProduct item of
        Populated _ None \<Rightarrow> (Some TypeError, st)
      | _ \<Rightarrow> decrementLines (decrementLine st item) rest)"

text \<open>
  \<open>createOrder\<close>: the cart is loaded with its products, checked for stock (which
  populates it again), the order lines and totals are computed, the order is created,
  the stock of every line is decreased, the cart is cleared. A thrown error ends the
  request where it is thrown.
\<close>

definition createOrder ::
  "int \<Rightarrow> nat \<Rightarrow> orderRequest \<Rightarrow> objectId \<Rightarrow> store \<Rightarrow> response \<times> store" where
  "createOrder now rnd body userId st =
     (case carts st userId of
        None \<Rightarrow> (CartIsEmpty, st)
      | Some c0 \<Rightarrow>
          let c = populate checkoutSelect (products st) c0
          in if length (items c) = 0 then (CartIsEmpty, st)
             else
               let v = validateStock (products st) c; c1 = fst v; sv = snd v
               in if \<not> isValid sv then (OutOfStock (issues sv), st)
                  else
                    (case orderLines (items c1) of
                       Inl e \<Rightarrow> (ServerError e, st)
                     | Inr ois \<Rightarrow>
                         (case orderCreate now rnd (orderTotals body userId c1 ois) of
                            Inl e \<Rightarrow> (ServerError e, st)
                          | Inr ord \<Rightarrow>
                              let st1 = st\<lparr>orders := orders st @ [ord]\<rparr>;
                                  r = decrementLines st1 (items c1)
                              in (case fst r of
                                    Some e \<Rightarrow> (ServerError e, snd r)
                                  | None \<Rightarrow>
                                      (case clear now (products (snd r)) c1 of
                                         Inl e \<Rightarrow> (ServerError e, snd r)
                                       | Inr c2 \<Rightarrow>
                                           (OrderCreated ord,
                                            (snd r)\<lparr>carts :=
                                              (carts (snd r))(user c1 \<mapsto> stored c2)\<rparr>))))))"

subsection \<open>Example data\<close>

text \<open>A product with ten units in stock, and the same product down to its last unit.\<close>

definition mug :: product where
  "mug =
     \<lparr>name = ''mug'', price = 20, images = [],
      inventory = \<lparr>trackQuantity = True, quantity = 10, lowStockThreshold = 5,
                   allowBackorders = False\<rparr>\<rparr>"

definition lastMug :: product where
  "lastMug = mug\<lparr>inventory := (inventory mug)\<lparr>quantity := 1\<rparr>\<rparr>"

definition mugCatalog :: catalog where
  "mugCatalog = [''p1'' \<mapsto> mug]"

text \<open>A cart as it is loaded when it has just been created.\<close>

definition emptyCart :: "objectId \<Rightarrow> cart" where
  "emptyCart u =
     \<lparr>user = u, items = [], subtotal = 0, tax = 0, shipping = 0, discount = Some 0,
      total = 0, coupon = None, shippingMethod = ''standard'', lastActivity = 0,
      modifiedPaths = {}\<rparr>"

text \<open>
  The cart with three mugs at 20.00 as it is loaded after \<open>addItem\<close> has saved it, and
  the same cart after \<open>applyCoupon\<close> with a coupon of 10 percent.
\<close>

definition mugCart :: cart where
  "mugCart =
     \<lparr>user = ''u1'',
      items = [\<lparr>itemProduct = Unpopulated ''p1'', itemQuantity = 3, itemVariant = None,
                addedAt = 1, lastModified = 1\<rparr>],
      subtotal = 60, tax = 0, shipping = 5.99, discount = Some 0, total = 0,
      coupon = None, shippingMethod = ''standard'', lastActivity = 1,
      modifiedPaths = {}\<rparr>"

definition couponCart :: cart where
  "couponCart =
     \<lparr>user = ''u1'',
      items = [\<lparr>itemProduct = Unpopulated ''p1'', itemQuantity = 3, itemVariant = None,
                addedAt = 1, lastModified = 1\<rparr>],
      subtotal = 60, tax = 4.32, shipping = 5.99, discount = Some 6, total = 64.31,
      coupon = Some \<lparr>code = ''TEN'', couponDiscount = 10, couponType = ''percentage''\<rparr>,
      shippingMethod = ''standard'', lastActivity = 2, modifiedPaths = {}\<rparr>"

definition couponStore :: store where
  "couponStore =
     \<lparr>carts = [''u1'' \<mapsto> couponCart], products = mugCatalog, orders = [], emitted = []\<rparr>"

text \<open>The variant \<open>{name: "size", value: "L"}\<close>.\<close>

definition sizeL :: variant where
  "sizeL = \<lparr>variantName = Some ''size'', variantValue = Some ''L'', priceAdjustment = None\<rparr>"

text \<open>Two users, each with one unit of the product that has one unit left.\<close>

definition oneMugCart :: "objectId \<Rightarrow> cart" where
  "oneMugCart u =
     \<lparr>user = u,
      items = [\<lparr>itemProduct = Unpopulated ''p1'', itemQuantity = 1, itemVariant = None,
                addedAt = 1, lastModified = 1\<rparr>],
      subtotal = 20, tax = 0, shipping = 5.99, discount = Some 0, total = 0,
      coupon = None, shippingMethod = ''standard'', lastActivity = 1,
      modifiedPaths = {}\<rparr>"

definition lastUnitStore :: store where
  "lastUnitStore =
     \<lparr>carts = [''u1'' \<mapsto> oneMugCart ''u1'', ''u2'' \<mapsto> oneMugCart ''u2''],
      products = [''p1'' \<mapsto> lastMug], orders = [], emitted = []\<rparr>"

text \<open>An order delivered at instant 0.\<close>

definition deliveredOrder :: order where
  "deliveredOrder =
     updateStatus 0 ''delivered''
       ((newOrder \<lparr>dataUser = ''u1'', dataItems = [], dataShippingMethod = ''standard'',
                   dataSubtotal = Some 0, dataTax = Some 0, dataShippingCost = Some 0,
                   dataDiscount = Some 0, dataTotal = Some 0\<rparr>)
          \<lparr>orderNumber := Some (0, 7)\<rparr>)"

section \<open>Properties\<close>

text \<open>The defining equations, grouped for evaluating the methods on concrete data.\<close>

lemmas cart_ops =
  addItem_def removeItem_def updateQuantity_def clear_def applyCoupon_def removeCoupon_def
  updateShippingMethod_def save_def preSave_def isModified_def setItems_def validCart_def
  calculateTotals_def populate_def populateLine_def project_def selected_def
  pricingSelect_def addLine_def variantAdjustment_def computeDiscount_def lookupRate_def
  shippingRates_def objectPrototypeKeys_def matchesLine_def castVariant_def stored_def
  field_def andThen_def cartInvariant_def Let_def

lemmas checkout_ops =
  createOrder_def orderTotals_def orderCreate_def newOrder_def validOrder_def
  decrementLine_def orderLine_def validateStock_def checkLine_def checkStock_def
  updateStock_def populate_def populateLine_def project_def selected_def
  checkoutSelect_def stockSelect_def Let_def

lemmas example_data =
  mug_def lastMug_def mugCatalog_def emptyCart_def mugCart_def couponCart_def couponStore_def
  sizeL_def oneMugCart_def lastUnitStore_def deliveredOrder_def

subsection \<open>Stock ledger: clamping and the round trip\<close>




subsection \<open>Stock ledger: the low-stock signal\<close>

text \<open>
  C10. On a record that tracks quantity, every call of \<open>updateStock\<close>, whatever the
  operation, emits the low-stock event exactly when the quantity after the call is at
  most the threshold, and emits nothing else; the event carries the product after the
  call. On a record that does not track quantity the call changes nothing and emits
  nothing.
\<close>

theorem updateStock_lowStock_signal:
  "(trackQuantity (inventory p) \<longrightarrow>
      snd (updateStock q operation p) =
        (if quantity (inventory (fst (updateStock q operation p)))
              \<le> lowStockThreshold (inventory (fst (updateStock q operation p)))
         then [LowStock (fst (updateStock q operation p))] else []))
   \<and> (\<not> trackQuantity (inventory p) \<longrightarrow> updateStock q operation p = (p, []))"
  by (simp add: updateStock_def Let_def)

theorem updateStock_lowStock_signal_witness:
  "trackQuantity (inventory mug)
   \<and> snd (updateStock 10 ''increase'' mug) = []
   \<and> snd (updateStock 6 ''decrease'' mug) = [LowStock (fst (updateStock 6 ''decrease'' mug))]
   \<and> \<not> trackQuantity (inventory (mug\<lparr>inventory := (inventory mug)\<lparr>trackQuantity := False\<rparr>\<rparr>))
   \<and> updateStock 1 ''decrease'' (mug\<lparr>inventory := (inventory mug)\<lparr>trackQuantity := False\<rparr>\<rparr>)
       = (mug\<lparr>inventory := (inventory mug)\<lparr>trackQuantity := False\<rparr>\<rparr>, [])"
  using updateStock_lowStock_signal [of mug 10 "''increase''"]
        updateStock_lowStock_signal [of mug 6 "''decrease''"]
        updateStock_lowStock_signal
          [of "mug\<lparr>inventory := (inventory mug)\<lparr>trackQuantity := False\<rparr>\<rparr>" 1 "''decrease''"]
  by (simp add: mug_def updateStock_def Let_def)

subsection \<open>Coupons: the discount by kind\<close>

lemma addLine_populated:
  "\<exists>s. addLine (Some a) (populateLine pricingSelect cat item) = Some s"
  by (cases "cat (refId (itemProduct item))")
     (simp_all add: addLine_def populateLine_def project_def selected_def pricingSelect_def)

lemma subtotal_number:
  "\<exists>s. foldl addLine (Some a) (map (populateLine pricingSelect cat) xs) = Some s"
proof (induction xs arbitrary: a)
  case Nil
  show ?case by simp
next
  case (Cons item rest)
  obtain s where "addLine (Some a) (populateLine pricingSelect cat item) = Some s"
    using addLine_populated by blast
  with Cons.IH [of s] show ?case by simp
qed

lemma calculateTotals_discount:
  "discount (calculateTotals cat c) = computeDiscount (subtotal (calculateTotals cat c)) (coupon c)"
proof -
  obtain s where "foldl addLine (Some 0) (map (populateLine pricingSelect cat) (items c)) = Some s"
    using subtotal_number by blast
  then show ?thesis
    by (simp add: calculateTotals_def populate_def Let_def)
qed

text \<open>
  C8 (as amended). For a cart with a coupon, recompute stores as discount the stored
  subtotal times the coupon's discount over 100 when the kind is \<open>percentage\<close>, and
  the coupon's discount itself otherwise. For the \<open>fixed\<close> kind there is no cap in
  either direction: the discount is the coupon's discount whatever the subtotal, and it
  is negative exactly when the coupon's discount is.
\<close>

theorem coupon_discount_by_kind:
  "coupon c = Some k \<longrightarrow>
     discount (calculateTotals cat c) =
       Some (if couponType k = ''percentage''
             then (subtotal (calculateTotals cat c) * couponDiscount k) / 100
             else couponDiscount k)
     \<and> (couponType k = ''fixed'' \<longrightarrow>
          discount (calculateTotals cat c) = Some (couponDiscount k)
          \<and> ((\<exists>d. discount (calculateTotals cat c) = Some d \<and> d < 0)
               \<longleftrightarrow> couponDiscount k < 0))"
  by (simp add: calculateTotals_discount computeDiscount_def)

theorem coupon_discount_by_kind_witness:
  "coupon couponCart = Some \<lparr>code = ''TEN'', couponDiscount = 10, couponType = ''percentage''\<rparr>
   \<and> discount (calculateTotals mugCatalog couponCart) = Some 6
   \<and> discount (calculateTotals mugCatalog
        (couponCart\<lparr>coupon := Some \<lparr>code = ''FIVE'', couponDiscount = 5, couponType = ''fixed''\<rparr>\<rparr>))
       = Some 5"
  using coupon_discount_by_kind [of couponCart
          "\<lparr>code = ''TEN'', couponDiscount = 10, couponType = ''percentage''\<rparr>" mugCatalog]
        coupon_discount_by_kind
          [of "couponCart\<lparr>coupon := Some \<lparr>code = ''FIVE'', couponDiscount = 5, couponType = ''fixed''\<rparr>\<rparr>"
              "\<lparr>code = ''FIVE'', couponDiscount = 5, couponType = ''fixed''\<rparr>" mugCatalog]
  by (simp add: cart_ops example_data)

text \<open>
  A fixed coupon of minus five on the cart of three mugs: the discount block returns
  minus five, and so does the cart after \<open>applyCoupon\<close>. No minimum of zero applies.
\<close>

theorem fixed_discount_negative_counterexample:
  "couponType \<lparr>code = ''NEG'', couponDiscount = - 5, couponType = ''fixed''\<rparr> = ''fixed''
   \<and> computeDiscount 60 (Some \<lparr>code = ''NEG'', couponDiscount = - 5, couponType = ''fixed''\<rparr>)
       = Some (- 5)
   \<and> field discount (applyCoupon 2 mugCatalog ''NEG'' (- 5) ''fixed'' mugCart) = Inr (Some (- 5))
   \<and> field (\<lambda>c. case discount c of None \<Rightarrow> False | Some d \<Rightarrow> d < 0)
         (applyCoupon 2 mugCatalog ''NEG'' (- 5) ''fixed'' mugCart) = Inr True"
  by (simp add: cart_ops example_data)

subsection \<open>Cart pricing: the shipping rate\<close>




subsection \<open>Cart pricing: the invariant of the totals\<close>

text \<open>The example carts are what the methods leave in the store.\<close>

lemma example_carts_loaded:
  "field stored (addItem 1 mugCatalog ''p1'' 3 None (emptyCart ''u1'')) = Inr mugCart"
  "field stored (applyCoupon 2 mugCatalog ''TEN'' 10 ''percentage'' mugCart) = Inr couponCart"
  by (simp_all add: cart_ops example_data)

text \<open>
  C3. \<open>addItem\<close> of three mugs at 20.00 on a new cart, which has no coupon. The hook
  recomputes: the subtotal becomes 60 and the shipping 5.99; the discount is read from
  the empty coupon and is \<open>undefined\<close>, so the tax and the total are \<open>NaN\<close>, are
  refused, and stay 0. The cart that the call returns does not satisfy
  \<open>total = subtotal - discount + tax + shipping\<close>: its total is 0 beside a subtotal
  of 60 and a shipping of 5.99.
\<close>

theorem addItem_without_coupon_breaks_invariant:
  "field subtotal (addItem 1 mugCatalog ''p1'' 3 None (emptyCart ''u1'')) = Inr 60
   \<and> field discount (addItem 1 mugCatalog ''p1'' 3 None (emptyCart ''u1'')) = Inr None
   \<and> field tax (addItem 1 mugCatalog ''p1'' 3 None (emptyCart ''u1'')) = Inr 0
   \<and> field shipping (addItem 1 mugCatalog ''p1'' 3 None (emptyCart ''u1'')) = Inr 5.99
   \<and> field total (addItem 1 mugCatalog ''p1'' 3 None (emptyCart ''u1'')) = Inr 0
   \<and> field cartInvariant (addItem 1 mugCatalog ''p1'' 3 None (emptyCart ''u1'')) = Inr False"
  by (simp add: cart_ops example_data)

subsection \<open>Cart lines: one line per identity\<close>

text \<open>
  C4. The cart of three mugs with its coupon, and \<open>addItem\<close> called twice for the mug
  in the variant \<open>{name: "size", value: "L"}\<close>, with quantities 2 and 3. Called twice on
  the same document, the second call compares the id with the text of the populated
  product, finds no line and pushes a second one. Called on the cart loaded again, the
  second call compares the variant with the stored one, which has the default price
  adjustment, finds no line and pushes a second one. Either way the cart ends with two
  lines of the same product and stored variant, of quantities 2 and 3, and none of
  quantity 5.
\<close>

theorem addItem_twice_two_lines:
  "field (\<lambda>c. map (\<lambda>i. (refId (itemProduct i), itemVariant i, itemQuantity i)) (items c))
     (andThen (addItem 3 mugCatalog ''p1'' 2 (Some sizeL) couponCart)
        (addItem 4 mugCatalog ''p1'' 3 (Some sizeL)))
     = Inr [(''p1'', None, 3),
            (''p1'', Some (sizeL\<lparr>priceAdjustment := Some 0\<rparr>), 2),
            (''p1'', Some (sizeL\<lparr>priceAdjustment := Some 0\<rparr>), 3)]
   \<and> field (\<lambda>c. map (\<lambda>i. (refId (itemProduct i), itemVariant i, itemQuantity i)) (items c))
       (andThen (addItem 3 mugCatalog ''p1'' 2 (Some sizeL) couponCart)
          (\<lambda>c. addItem 4 mugCatalog ''p1'' 3 (Some sizeL) (stored c)))
     = Inr [(''p1'', None, 3),
            (''p1'', Some (sizeL\<lparr>priceAdjustment := Some 0\<rparr>), 2),
            (''p1'', Some (sizeL\<lparr>priceAdjustment := Some 0\<rparr>), 3)]"
  by (simp add: cart_ops example_data)

subsection \<open>Cart: what \<open>clear\<close> leaves\<close>

text \<open>
  C7. Clearing the cart of three mugs with its coupon: \<open>clear\<close> empties the lines,
  drops the coupon and sets the five totals to zero, and the pre-save hook, seeing the
  lines changed, recomputes. The subtotal is 0 again, the discount is read from the
  empty coupon and becomes \<open>undefined\<close>, the shipping becomes the rate of the cart's
  method, 5.99; the tax and the total are \<open>NaN\<close>, are refused, and stay at the 0 that
  \<open>clear\<close> has written.
\<close>

theorem clear_leaves_shipping_charge:
  "field items (clear 3 mugCatalog couponCart) = Inr []
   \<and> field coupon (clear 3 mugCatalog couponCart) = Inr None
   \<and> field subtotal (clear 3 mugCatalog couponCart) = Inr 0
   \<and> field discount (clear 3 mugCatalog couponCart) = Inr None
   \<and> field tax (clear 3 mugCatalog couponCart) = Inr 0
   \<and> field shipping (clear 3 mugCatalog couponCart) = Inr 5.99
   \<and> field total (clear 3 mugCatalog couponCart) = Inr 0"
  by (simp add: cart_ops example_data)

subsection \<open>Order lifecycle: the return window\<close>

lemma int_div_le_iff:
  fixes x D n :: int
  assumes "0 < D"
  shows "(x div D \<le> n) = (x < (n + 1) * D)"
proof -
  define q where "q = x div D"
  define r where "r = x mod D"
  have e: "x = D * q + r"
    by (simp add: q_def r_def)
  have m: "0 \<le> r" "r < D"
    using assms by (simp_all add: r_def)
  have "(q \<le> n) = (x < (n + 1) * D)"
  proof
    assume "q \<le> n"
    then have "D * q \<le> D * n"
      using assms by (simp add: mult_left_mono)
    with m have "D * q + r < D * n + D"
      by linarith
    then show "x < (n + 1) * D"
      by (simp add: e algebra_simps)
  next
    assume a: "x < (n + 1) * D"
    show "q \<le> n"
    proof (rule ccontr)
      assume "\<not> q \<le> n"
      then have "n + 1 \<le> q"
        by simp
      then have "D * (n + 1) \<le> D * q"
        using assms by (simp only: mult_left_mono)
      with m have "(n + 1) * D \<le> D * q + r"
        by (simp add: algebra_simps)
      with a e show False
        by linarith
    qed
  qed
  then show ?thesis
    by (simp add: q_def)
qed

text \<open>
  C9 (as amended). \<open>canBeReturned\<close> answers false for every status other than
  \<open>delivered\<close>. For a delivered order with its delivery instant set it answers true
  exactly when the whole days elapsed since delivery are at most 30, that is when
  \<open>now - deliveredAt\<close> is less than 31 days; it is false from 31 days on. A
  delivered order without a delivery instant makes the method throw.
\<close>

theorem canBeReturned_whole_days:
  "(status ord \<noteq> ''delivered'' \<longrightarrow> canBeReturned now ord = Inr False)
   \<and> (status ord = ''delivered'' \<and> deliveredAt ord = Some d \<longrightarrow>
        canBeReturned now ord = Inr (now - d < 31 * (1000 * 60 * 60 * 24)))
   \<and> (status ord = ''delivered'' \<and> deliveredAt ord = None \<longrightarrow>
        canBeReturned now ord = Inl TypeError)"
  using int_div_le_iff [of "1000 * 60 * 60 * 24" "now - d" 30]
  by (simp add: canBeReturned_def Let_def)

theorem canBeReturned_whole_days_witness:
  "status deliveredOrder = ''delivered'' \<and> deliveredAt deliveredOrder = Some 0
   \<and> canBeReturned (31 * 86400000 - 1) deliveredOrder = Inr True
   \<and> canBeReturned (31 * 86400000) deliveredOrder = Inr False
   \<and> status (updateStatus 0 ''shipped'' deliveredOrder) \<noteq> ''delivered''
   \<and> canBeReturned 5 (updateStatus 0 ''shipped'' deliveredOrder) = Inr False
   \<and> deliveredAt (deliveredOrder\<lparr>deliveredAt := None\<rparr>) = None
   \<and> canBeReturned 5 (deliveredOrder\<lparr>deliveredAt := None\<rparr>) = Inl TypeError"
  using canBeReturned_whole_days [of "deliveredOrder\<lparr>deliveredAt := None\<rparr>" 5 0]
        canBeReturned_whole_days [of deliveredOrder "31 * 86400000 - 1" 0]
        canBeReturned_whole_days [of deliveredOrder "31 * 86400000" 0]
        canBeReturned_whole_days [of "updateStatus 0 ''shipped'' deliveredOrder" 5 0]
  by (simp add: deliveredOrder_def updateStatus_def newOrder_def Let_def)

text \<open>
  One millisecond after the thirtieth day has ended, the order delivered at instant 0
  can still be returned.
\<close>

theorem canBeReturned_after_thirty_days_counterexample:
  "status deliveredOrder = ''delivered'' \<and> deliveredAt deliveredOrder = Some 0
   \<and> (30 * (1000 * 60 * 60 * 24) + 1) - 0 > (30 * (1000 * 60 * 60 * 24) :: int)
   \<and> canBeReturned (30 * (1000 * 60 * 60 * 24) + 1) deliveredOrder = Inr True"
  by (simp add: deliveredOrder_def updateStatus_def newOrder_def canBeReturned_def Let_def)

subsection \<open>Checkout: no order is created\<close>

text \<open>
  C1. The cart of three mugs at 20.00 with the coupon of 10 percent, standard shipping,
  ten mugs in stock, checked out with no override. The cart is not empty and passes the
  stock validation. \<open>validateStock\<close> has populated its lines with the name and the
  inventory fields only, so the first order line throws on \<open>images[0]\<close>: the request
  ends with the error, no totals are computed, no order is created and nothing is
  written.
\<close>

theorem checkout_throws_before_totals:
  "carts couponStore ''u1'' = Some couponCart
   \<and> items couponCart \<noteq> []
   \<and> isValid (snd (validateStock (products couponStore)
                     (populate checkoutSelect (products couponStore) couponCart)))
   \<and> orderLines (items (fst (validateStock (products couponStore)
                     (populate checkoutSelect (products couponStore) couponCart))))
       = Inl TypeError
   \<and> createOrder 5 7 \<lparr>requestShippingMethod = None\<rparr> ''u1'' couponStore
       = (ServerError TypeError, couponStore)"
  by (simp add: couponStore_def couponCart_def mugCatalog_def mug_def checkout_ops)

subsection \<open>Checkout: two requests for the last unit\<close>

text \<open>
  C2. A product that tracks quantity, allows no backorders and has one unit left; two
  users each hold a cart whose only line asks for one unit of it. Either request, served
  on the store as it is, passes the stock validation and then throws on the first order
  line: it creates no order and writes nothing. So whichever is served first, the other
  finds the same store and ends the same way: no order, no rejection for insufficient
  stock, and the quantity is still 1.
\<close>

theorem checkouts_for_last_unit_both_throw:
  "createOrder 5 7 \<lparr>requestShippingMethod = None\<rparr> ''u1'' lastUnitStore
     = (ServerError TypeError, lastUnitStore)
   \<and> createOrder 6 8 \<lparr>requestShippingMethod = None\<rparr> ''u2'' lastUnitStore
     = (ServerError TypeError, lastUnitStore)
   \<and> orders lastUnitStore = []
   \<and> map_option (\<lambda>x. quantity (inventory x)) (products lastUnitStore ''p1'') = Some 1"
  by (simp add: lastUnitStore_def oneMugCart_def lastMug_def mug_def checkout_ops)

end
